theory Spec2Isabelle
  imports Complex_Main
begin

section \<open>Values of the JavaScript runtime\<close>

text \<open>
  A thrown error object is a value carrying its message; every \<open>throw\<close> and every
  rejected promise of the source is the \<open>Inl\<close> branch of a sum. \<open>Error m\<close> is
  \<open>new Error(m)\<close>, the only kind the source itself throws; \<open>ErrorOfClass n m\<close> is an
  error whose \<open>name\<close> is \<open>n\<close>, such as a \<open>TypeError\<close> thrown by a binding.
\<close>

datatype js_error = Error (message: string) | ErrorOfClass string (message: string)

fun error_name :: "js_error \<Rightarrow> string" where
  "error_name (Error m) = ''Error''"
| "error_name (ErrorOfClass n m) = n"

text \<open>\<open>String(error)\<close> is \<open>Error.prototype.toString\<close>: the name alone when the message
  is empty, the message alone when the name is empty, and otherwise the name, a colon, a
  space and the message.\<close>

definition String_of_error :: "js_error \<Rightarrow> string" where
  "String_of_error e =
     (if error_name e = [] then message e
      else if message e = [] then error_name e
      else error_name e @ '': '' @ message e)"

text \<open>The values \<open>JSON.parse\<close> produces (the request body, the metadata of a vector).\<close>

datatype json =
    JNull
  | JBool bool
  | JNum real
  | JStr string
  | JArr "json list"
  | JObj "(string \<times> json) list"

text \<open>\<open>!v\<close> of the source is \<open>falsy v\<close>.\<close>

fun falsy :: "json \<Rightarrow> bool" where
  "falsy JNull = True"
| "falsy (JBool b) = (\<not> b)"
| "falsy (JNum n) = (n = 0)"
| "falsy (JStr s) = (s = [])"
| "falsy (JArr vs) = False"
| "falsy (JObj kvs) = False"

text \<open>
  \<open>v.content\<close> for a value \<open>v\<close> that is not \<open>null\<close>: \<open>None\<close> stands for \<open>undefined\<close>.
  Only an object has the property; of a key written twice \<open>JSON.parse\<close> keeps the last.
\<close>

fun content_of :: "json \<Rightarrow> json option" where
  "content_of (JObj kvs) = map_of (rev kvs) ''content''"
| "content_of v = None"

text \<open>
  Strings are lists of characters; a character is a code unit below 256. Of these,
  \<open>String.prototype.trim\<close> removes TAB, LF, VT, FF, CR, SPACE and NBSP at both ends.
\<close>

definition is_white_space :: "char \<Rightarrow> bool" where
  "is_white_space c =
     (c \<in> set [CHR 0x09, CHR 0x0A, CHR 0x0B, CHR 0x0C, CHR 0x0D, CHR 0x20, CHR 0xA0])"

definition trim :: "string \<Rightarrow> string" where
  "trim s = rev (dropWhile is_white_space (rev (dropWhile is_white_space s)))"

text \<open>\<open>s.includes(pat)\<close>: \<open>pat\<close> occurs in \<open>s\<close> as a contiguous substring.\<close>

fun String_includes :: "string \<Rightarrow> string \<Rightarrow> bool" where
  "String_includes [] pat = (pat = [])"
| "String_includes (c # cs) pat = (take (length pat) (c # cs) = pat \<or> String_includes cs pat)"

text \<open>A line written by \<open>console.log\<close> or \<open>console.error\<close>: the message, and for
  \<open>console.error\<close> the error it is called with. The result object that one
  \<open>console.log\<close> of \<open>deleteVectorById\<close> prints after its message is left out.\<close>

datatype console_line = console_log string | console_error string js_error

section \<open>The environment: embedding provider, vector index, record store\<close>

record VectorizeVector =
  vec_id :: string
  vec_values :: "real list"
  vec_namespace :: string
  vec_metadata :: "json option"

record VectorizeMatch =
  match_id :: string
  match_score :: real
  match_metadata :: "json option"

record VectorizeMatches =
  matches :: "VectorizeMatch list option"

text \<open>A row of the table
  \<open>memories (id TEXT PRIMARY KEY, userId TEXT NOT NULL, content TEXT NOT NULL,
  created_at TEXT DEFAULT CURRENT_TIMESTAMP)\<close>.\<close>

record memory_row =
  row_id :: string
  row_userId :: string
  row_content :: string
  row_created_at :: string

record D1Meta =
  changes :: nat

record D1Result =
  meta :: "D1Meta option"

text \<open>
  \<open>Env\<close> holds the three bindings and the console. \<open>AI\<close> is the embedding model: the
  \<open>data\<close> array of its answer for a text, or the error it throws. \<open>VECTORIZE\<close> is the
  content of the index and \<open>DB\<close> the rows of the table. A binding that is out of
  service throws the error of its \<open>_failure\<close> field on every call.
\<close>

record Env =
  AI :: "string \<Rightarrow> js_error + real list list"
  VECTORIZE :: "VectorizeVector list"
  VECTORIZE_failure :: "js_error option"
  VECTORIZE_metric :: "real list \<Rightarrow> real list \<Rightarrow> real"
  DB :: "memory_row list"
  DB_failure :: "js_error option"
  CURRENT_TIMESTAMP :: string
  console :: "console_line list"

definition console_write :: "console_line \<Rightarrow> Env \<Rightarrow> Env" where
  "console_write l env = env\<lparr>console := console env @ [l]\<rparr>"

text \<open>
  The two stores are services outside the repository; the source only calls them. Their
  operations follow sections 2 and 6 of the specification.
\<close>

text \<open>Modelled from the spec: the Vector Index (the \<open>env.VECTORIZE\<close> binding), one entry
  of \<open>upsert([{id, vector, namespace, payload}])\<close>. An id names one entry of the index:
  the upsert of a known id replaces the entry, that of a new id adds one.\<close>

definition upsert_one :: "VectorizeVector list \<Rightarrow> VectorizeVector \<Rightarrow> VectorizeVector list" where
  "upsert_one idx v =
     (if vec_id v \<in> set (map vec_id idx)
      then map (\<lambda>e. if vec_id e = vec_id v then v else e) idx
      else idx @ [v])"

text \<open>Modelled from the spec: the Vector Index, \<open>upsert([{id, vector, namespace, payload}])\<close>
  on the whole list; it throws when the index is out of service.\<close>

definition VECTORIZE_upsert :: "VectorizeVector list \<Rightarrow> Env \<Rightarrow> Env \<times> (js_error + unit)" where
  "VECTORIZE_upsert vs env =
     (case VECTORIZE_failure env of
        Some e \<Rightarrow> (env, Inl e)
      | None \<Rightarrow> (env\<lparr>VECTORIZE := foldl upsert_one (VECTORIZE env) vs\<rparr>, Inr ()))"

text \<open>Modelled from the spec: the Vector Index, the match \<open>{id, score, metadata}\<close> a query
  reports for an entry; the score is the metric of the index between the query vector and
  the vector of the entry.\<close>

definition match_of :: "Env \<Rightarrow> real list \<Rightarrow> VectorizeVector \<Rightarrow> VectorizeMatch" where
  "match_of env queryVector v =
     \<lparr>match_id = vec_id v,
      match_score = VECTORIZE_metric env queryVector (vec_values v),
      match_metadata = vec_metadata v\<rparr>"

text \<open>Modelled from the spec: the Vector Index, \<open>query(vector, namespace, topK,
  returnMetadata)\<close>: the top-K similarity query by vector within one namespace, best
  score first.\<close>

definition VECTORIZE_query :: "real list \<Rightarrow> string \<Rightarrow> nat \<Rightarrow> Env \<Rightarrow> js_error + VectorizeMatches" where
  "VECTORIZE_query queryVector namespace topK env =
     (case VECTORIZE_failure env of
        Some e \<Rightarrow> Inl e
      | None \<Rightarrow>
          Inr \<lparr>matches = Some (take topK (sort_key (\<lambda>m. - match_score m)
                 (map (match_of env queryVector)
                    (filter (\<lambda>v. vec_namespace v = namespace) (VECTORIZE env)))))\<rparr>)"

text \<open>Modelled from the spec: the Vector Index, \<open>deleteByIds([id])\<close>, which is by id
  alone and not scoped to a namespace.\<close>

definition VECTORIZE_deleteByIds :: "string list \<Rightarrow> Env \<Rightarrow> Env \<times> (js_error + unit)" where
  "VECTORIZE_deleteByIds ids env =
     (case VECTORIZE_failure env of
        Some e \<Rightarrow> (env, Inl e)
      | None \<Rightarrow> (env\<lparr>VECTORIZE := filter (\<lambda>v. vec_id v \<notin> set ids) (VECTORIZE env)\<rparr>, Inr ()))"

text \<open>Modelled from the spec: the Record Store (the \<open>env.DB\<close> binding), the condition
  \<open>WHERE id = ? AND userId = ?\<close> of the delete and update statements of \<open>db.ts\<close>.\<close>

definition row_matches :: "string \<Rightarrow> string \<Rightarrow> memory_row \<Rightarrow> bool" where
  "row_matches memoryId userId r = (row_id r = memoryId \<and> row_userId r = userId)"

text \<open>Modelled from the spec: the Record Store, \<open>insert(id, namespace, content)\<close>, running
  \<open>INSERT INTO memories (id, userId, content) VALUES (?, ?, ?)\<close>. It fails on a known id,
  \<open>id\<close> being the primary key of the table.\<close>

definition D1_run_insert :: "string \<Rightarrow> string \<Rightarrow> string \<Rightarrow> Env \<Rightarrow> Env \<times> (js_error + D1Result)" where
  "D1_run_insert memoryId userId content env =
     (case DB_failure env of
        Some e \<Rightarrow> (env, Inl e)
      | None \<Rightarrow>
          if memoryId \<in> set (map row_id (DB env))
          then (env, Inl (Error ''UNIQUE constraint failed: memories.id''))
          else (env\<lparr>DB := DB env @
                  [\<lparr>row_id = memoryId, row_userId = userId, row_content = content,
                    row_created_at = CURRENT_TIMESTAMP env\<rparr>]\<rparr>,
                Inr \<lparr>meta = Some \<lparr>changes = 1\<rparr>\<rparr>))"

text \<open>Modelled from the spec: the Record Store, \<open>deleteByIdAndNamespace(id, namespace)\<close>,
  running \<open>DELETE FROM memories WHERE id = ? AND userId = ?\<close>; \<open>changes\<close> counts the rows
  deleted.\<close>

definition D1_run_delete :: "string \<Rightarrow> string \<Rightarrow> Env \<Rightarrow> Env \<times> (js_error + D1Result)" where
  "D1_run_delete memoryId userId env =
     (case DB_failure env of
        Some e \<Rightarrow> (env, Inl e)
      | None \<Rightarrow>
          (env\<lparr>DB := filter (\<lambda>r. \<not> row_matches memoryId userId r) (DB env)\<rparr>,
           Inr \<lparr>meta = Some \<lparr>changes = length (filter (row_matches memoryId userId) (DB env))\<rparr>\<rparr>))"

text \<open>Modelled from the spec: the Record Store, \<open>updateContentByIdAndNamespace(id,
  namespace, content)\<close> with its count of rows changed, running
  \<open>UPDATE memories SET content = ? WHERE id = ? AND userId = ?\<close>.\<close>

definition D1_run_update :: "string \<Rightarrow> string \<Rightarrow> string \<Rightarrow> Env \<Rightarrow> Env \<times> (js_error + D1Result)" where
  "D1_run_update newContent memoryId userId env =
     (case DB_failure env of
        Some e \<Rightarrow> (env, Inl e)
      | None \<Rightarrow>
          (env\<lparr>DB := map (\<lambda>r. if row_matches memoryId userId r
                               then r\<lparr>row_content := newContent\<rparr> else r) (DB env)\<rparr>,
           Inr \<lparr>meta = Some \<lparr>changes = length (filter (row_matches memoryId userId) (DB env))\<rparr>\<rparr>))"

section \<open>\<open>utils/db.ts\<close>\<close>

text \<open>
  Every function takes the environment and returns it with the effects made, next to the
  value returned (\<open>Inr\<close>) or the error thrown (\<open>Inl\<close>). \<open>storeMemoryInD1\<close> is always called
  with its fourth argument, so the default \<open>uuidv4()\<close> is never taken.
\<close>

definition storeMemoryInD1 :: "string \<Rightarrow> string \<Rightarrow> Env \<Rightarrow> string \<Rightarrow> Env \<times> (js_error + string)" where
  "storeMemoryInD1 content userId env memoryId =
     (case D1_run_insert memoryId userId content env of
        (env1, Inr result) \<Rightarrow>
          (console_write (console_log (''Memory stored in D1 with ID: '' @ memoryId)) env1,
           Inr memoryId)
      | (env1, Inl error) \<Rightarrow>
          (console_write (console_error ''Error storing memory in D1:'' error) env1,
           Inl error))"

definition deleteMemoryFromD1 :: "string \<Rightarrow> string \<Rightarrow> Env \<Rightarrow> Env \<times> (js_error + unit)" where
  "deleteMemoryFromD1 memoryId userId env =
     (case D1_run_delete memoryId userId env of
        (env1, Inr result) \<Rightarrow>
          (console_write (console_log (''Memory '' @ memoryId @ '' deleted from D1'')) env1,
           Inr ())
      | (env1, Inl error) \<Rightarrow>
          (console_write (console_error ''Error deleting memory from D1:'' error) env1,
           Inl error))"

text \<open>The error thrown on zero changes is thrown inside the \<open>try\<close>, so the \<open>catch\<close> of
  the function logs it and throws it again.\<close>

definition updateMemoryInD1 :: "string \<Rightarrow> string \<Rightarrow> string \<Rightarrow> Env \<Rightarrow> Env \<times> (js_error + unit)" where
  "updateMemoryInD1 memoryId userId newContent env =
     (case D1_run_update newContent memoryId userId env of
        (env1, Inr result) \<Rightarrow>
          if (case meta result of None \<Rightarrow> True | Some m \<Rightarrow> changes m = 0)
          then
            (let error = Error (''Memory with ID '' @ memoryId @ '' not found for user ''
                                  @ userId @ '' or content unchanged.'')
             in (console_write (console_error ''Error updating memory in D1:'' error) env1,
                 Inl error))
          else
            (console_write (console_log (''Memory '' @ memoryId @ '' updated in D1'')) env1,
             Inr ())
      | (env1, Inl error) \<Rightarrow>
          (console_write (console_error ''Error updating memory in D1:'' error) env1,
           Inl error))"

section \<open>\<open>utils/vectorize.ts\<close>\<close>

definition MINIMUM_SIMILARITY_SCORE :: real where
  "MINIMUM_SIMILARITY_SCORE = 0.5"

definition generateEmbeddings :: "string \<Rightarrow> Env \<Rightarrow> js_error + real list" where
  "generateEmbeddings text env =
     (case AI env text of
        Inl e \<Rightarrow> Inl e
      | Inr data \<Rightarrow>
          (case data of
             [] \<Rightarrow> Inl (Error ''Failed to generate vector embedding'')
           | values # rest \<Rightarrow> Inr values))"

text \<open>\<open>storeMemory\<close> draws its id from \<open>uuidv4()\<close> before anything else; the value drawn
  is the last argument here.\<close>

definition storeMemory :: "string \<Rightarrow> string \<Rightarrow> Env \<Rightarrow> string \<Rightarrow> Env \<times> (js_error + string)" where
  "storeMemory text userId env uuid =
     (let memoryId = uuid in
      case generateEmbeddings text env of
        Inl e \<Rightarrow> (env, Inl e)
      | Inr values \<Rightarrow>
          (case VECTORIZE_upsert
                  [\<lparr>vec_id = memoryId, vec_values = values, vec_namespace = userId,
                    vec_metadata = Some (JObj [(''content'', JStr text)])\<rparr>] env of
             (env1, Inl e) \<Rightarrow> (env1, Inl e)
           | (env1, Inr u) \<Rightarrow> (env1, Inr memoryId)))"

definition content_of_match :: "VectorizeMatch \<Rightarrow> string" where
  "content_of_match m =
     (let missing = (if match_id m \<noteq> [] then ''Missing memory content (ID: '' @ match_id m @ '')''
                     else ''Missing memory content'')
      in case match_metadata m of
           None \<Rightarrow> missing
         | Some md \<Rightarrow>
             if falsy md then missing
             else (case content_of md of Some (JStr s) \<Rightarrow> s | _ \<Rightarrow> missing))"

record Memory =
  mem_content :: string
  mem_score :: real
  mem_id :: string

definition searchMemories :: "string \<Rightarrow> string \<Rightarrow> Env \<Rightarrow> js_error + Memory list" where
  "searchMemories query userId env =
     (case generateEmbeddings query env of
        Inl e \<Rightarrow> Inl e
      | Inr queryVector \<Rightarrow>
          (case VECTORIZE_query queryVector userId 10 env of
             Inl e \<Rightarrow> Inl e
           | Inr results \<Rightarrow>
               (case matches results of
                  None \<Rightarrow> Inr []
                | Some ms \<Rightarrow>
                    if length ms = 0 then Inr []
                    else
                      (let memories =
                             map (\<lambda>m. \<lparr>mem_content = content_of_match m,
                                        mem_score = (if match_score m = 0 then 0 else match_score m),
                                        mem_id = match_id m\<rparr>)
                               (filter (\<lambda>m. match_score m > MINIMUM_SIMILARITY_SCORE) ms)
                       in Inr (sort_key (\<lambda>a. - mem_score a) memories)))))"

definition updateMemoryVector :: "string \<Rightarrow> string \<Rightarrow> string \<Rightarrow> Env \<Rightarrow> Env \<times> (js_error + unit)" where
  "updateMemoryVector memoryId newContent userId env =
     (case generateEmbeddings newContent env of
        Inl e \<Rightarrow> (env, Inl e)
      | Inr newValues \<Rightarrow>
          (case VECTORIZE_upsert
                  [\<lparr>vec_id = memoryId, vec_values = newValues, vec_namespace = userId,
                    vec_metadata = Some (JObj [(''content'', JStr newContent)])\<rparr>] env of
             (env1, Inl e) \<Rightarrow> (env1, Inl e)
           | (env1, Inr u) \<Rightarrow>
               (console_write (console_log (''Vector for memory '' @ memoryId @ '' (namespace ''
                                              @ userId @ '') updated.'')) env1,
                Inr ())))"

definition deleteVectorById :: "string \<Rightarrow> string \<Rightarrow> Env \<Rightarrow> Env \<times> (js_error + unit)" where
  "deleteVectorById memoryId userId env =
     (case VECTORIZE_deleteByIds [memoryId] env of
        (env1, Inr result) \<Rightarrow>
          (console_write (console_log (''Attempted global deletion for vector ID '' @ memoryId
              @ ''. Deletion was requested for user (namespace): '' @ userId @ '' Result:'')) env1,
           Inr ())
      | (env1, Inl error) \<Rightarrow>
          (console_write (console_error (''Error deleting vector ID '' @ memoryId
              @ '' from Vectorize namespace '' @ userId @ '':'') error) env1,
           Inl error))"

section \<open>The tool \<open>addToMCPMemory\<close> of the MCP agent\<close>

text \<open>The answer of a tool: \<open>{content: [{type: "text", text}]}\<close>.\<close>

datatype CallToolResult = ToolText string

text \<open>\<open>userId\<close> is \<open>this.props.userId\<close>; \<open>uuid\<close> is the value \<open>uuidv4()\<close> gives inside
  \<open>storeMemory\<close>.\<close>

definition addToMCPMemory :: "string \<Rightarrow> string \<Rightarrow> string \<Rightarrow> Env \<Rightarrow> Env \<times> CallToolResult" where
  "addToMCPMemory thingToRemember userId uuid env =
     (case storeMemory thingToRemember userId env uuid of
        (env1, Inl error) \<Rightarrow>
          (console_write (console_error ''Error storing memory:'' error) env1,
           ToolText (''Failed to remember: '' @ String_of_error error))
      | (env1, Inr memoryId) \<Rightarrow>
          (case storeMemoryInD1 thingToRemember userId env1 memoryId of
             (env2, Inl error) \<Rightarrow>
               (console_write (console_error ''Error storing memory:'' error) env2,
                ToolText (''Failed to remember: '' @ String_of_error error))
           | (env2, Inr stored) \<Rightarrow>
               (console_write (console_log
                  (''Memory stored successfully in Vectorize and D1 with ID: '' @ memoryId
                   @ '', content: '' @ [CHR 0x22] @ thingToRemember @ [CHR 0x22])) env2,
                ToolText (''Remembered: '' @ thingToRemember))))"

section \<open>The HTTP routes of \<open>index.ts\<close>\<close>

text \<open>The middleware runs \<open>CREATE TABLE IF NOT EXISTS\<close> before the first request and goes on
  to the route whether or not that succeeds; here the table exists from the start, and a
  table that cannot be reached is a Record Store out of service.\<close>

record Response =
  res_status :: nat
  res_body :: json

text \<open>\<open>c.json(v)\<close> answers with status 200, \<open>c.json(v, status)\<close> with the status given.\<close>

definition c_json :: "json \<Rightarrow> nat \<Rightarrow> Response" where
  "c_json v st = \<lparr>res_status = st, res_body = v\<rparr>"

definition success_true :: json where
  "success_true = JObj [(''success'', JBool True)]"

definition success_false :: "string \<Rightarrow> json" where
  "success_false err = JObj [(''success'', JBool False), (''error'', JStr err)]"

text \<open>\<open>DELETE /:userId/memories/:memoryId\<close>\<close>

definition app_delete :: "string \<Rightarrow> string \<Rightarrow> Env \<Rightarrow> Env \<times> Response" where
  "app_delete userId memoryId env =
     (case deleteMemoryFromD1 memoryId userId env of
        (env1, Inr u) \<Rightarrow>
          (let env2 = console_write (console_log (''Deleted memory '' @ memoryId @ '' for user ''
                                        @ userId @ '' from D1.'')) env1;
               env3 = (case deleteVectorById memoryId userId env2 of
                         (env', Inr u') \<Rightarrow>
                           console_write (console_log (''Attempted to delete vector '' @ memoryId
                             @ '' for user '' @ userId @ '' from Vectorize.'')) env'
                       | (env', Inl vectorError) \<Rightarrow>
                           console_write (console_error (''Failed to delete vector '' @ memoryId
                             @ '' for user '' @ userId @ '' from Vectorize:'') vectorError) env')
           in (env3, c_json success_true 200))
      | (env1, Inl error) \<Rightarrow>
          (console_write (console_error (''Error deleting memory '' @ memoryId
              @ '' (D1 primary) for user '' @ userId @ '':'') error) env1,
           c_json (success_false ''Failed to delete memory'') 500))"

text \<open>
  \<open>PUT /:userId/memories/:memoryId\<close>. The third argument is what \<open>c.req.json()\<close> gives:
  the parsed body, or the error thrown when the body does not parse.
\<close>

definition app_put :: "string \<Rightarrow> string \<Rightarrow> js_error + json \<Rightarrow> Env \<Rightarrow> Env \<times> Response" where
  "app_put userId memoryId req_json env =
     (case req_json of
        Inl e \<Rightarrow>
          (console_write (console_error ''Failed to parse request body:'' e) env,
           c_json (success_false ''Failed to parse request body'') 400)
      | Inr body \<Rightarrow>
          if falsy body
             \<or> (case content_of body of Some (JStr s) \<Rightarrow> False | _ \<Rightarrow> True)
             \<or> (case content_of body of Some (JStr s) \<Rightarrow> trim s = [] | _ \<Rightarrow> True)
          then (env, c_json (success_false ''Invalid or missing content in request body'') 400)
          else
            (let updatedContent = (case content_of body of Some (JStr s) \<Rightarrow> trim s | _ \<Rightarrow> []) in
             case updateMemoryInD1 memoryId userId updatedContent env of
               (env1, Inr u) \<Rightarrow>
                 (let env2 = console_write (console_log (''Updated memory '' @ memoryId
                                @ '' for user '' @ userId @ '' in D1.'')) env1;
                      env3 = (case updateMemoryVector memoryId updatedContent userId env2 of
                                (env', Inr u') \<Rightarrow>
                                  console_write (console_log (''Updated vector '' @ memoryId
                                    @ '' for user '' @ userId @ '' in Vectorize.'')) env'
                              | (env', Inl vectorError) \<Rightarrow>
                                  console_write (console_error (''Failed to update vector ''
                                    @ memoryId @ '' for user '' @ userId @ '' in Vectorize:'')
                                    vectorError) env')
                  in (env3, c_json success_true 200))
             | (env1, Inl error) \<Rightarrow>
                 (let env2 = console_write (console_error (''Error updating memory '' @ memoryId
                                @ '' for user '' @ userId @ '':'') error) env1;
                      errorMessage = (if message error = [] then ''Failed to update memory''
                                      else message error)
                  in if String_includes errorMessage ''not found''
                     then (env2, c_json (success_false errorMessage) 404)
                     else (env2, c_json (success_false errorMessage) 500))))"

section \<open>A small deployment\<close>

text \<open>
  Two users, \<open>alice\<close> and \<open>bob\<close>, hold the same sentence about coffee; \<open>alice\<close> also holds
  one about tea. The embedding model of the example knows three directions and is out
  of service for the text \<open>unavailable\<close>; the metric is the dot product.
\<close>

definition dot :: "real list \<Rightarrow> real list \<Rightarrow> real" where
  "dot a b = sum_list (map (\<lambda>(x, y). x * y) (zip a b))"

definition demo_AI :: "string \<Rightarrow> js_error + real list list" where
  "demo_AI t =
     (if t = ''unavailable'' then Inl (Error ''AI unavailable'')
      else if String_includes t ''coffee'' then Inr [[1, 0]]
      else if String_includes t ''tea'' then Inr [[0, 1]]
      else Inr [[1 / 2, 1 / 2]])"

definition demo_vector :: "string \<Rightarrow> real list \<Rightarrow> string \<Rightarrow> string \<Rightarrow> VectorizeVector" where
  "demo_vector i vs ns c =
     \<lparr>vec_id = i, vec_values = vs, vec_namespace = ns,
      vec_metadata = Some (JObj [(''content'', JStr c)])\<rparr>"

definition demo_row :: "string \<Rightarrow> string \<Rightarrow> string \<Rightarrow> memory_row" where
  "demo_row i u c =
     \<lparr>row_id = i, row_userId = u, row_content = c, row_created_at = ''2025-01-01 00:00:00''\<rparr>"

definition demo_env :: Env where
  "demo_env =
     \<lparr>AI = demo_AI,
      VECTORIZE = [demo_vector ''A'' [1, 0] ''alice'' ''I like dark roast coffee'',
                   demo_vector ''B'' [1, 0] ''bob'' ''I like dark roast coffee'',
                   demo_vector ''C'' [0, 1] ''alice'' ''I like tea''],
      VECTORIZE_failure = None,
      VECTORIZE_metric = dot,
      DB = [demo_row ''A'' ''alice'' ''I like dark roast coffee'',
            demo_row ''B'' ''bob'' ''I like dark roast coffee'',
            demo_row ''C'' ''alice'' ''I like tea''],
      DB_failure = None,
      CURRENT_TIMESTAMP = ''2025-01-02 00:00:00'',
      console = []\<rparr>"

definition vectorize_down :: "Env \<Rightarrow> Env" where
  "vectorize_down env = env\<lparr>VECTORIZE_failure := Some (Error ''Vectorize is unavailable'')\<rparr>"

definition database_down :: "Env \<Rightarrow> Env" where
  "database_down env = env\<lparr>DB_failure := Some (Error ''D1 is unavailable'')\<rparr>"

text \<open>The state of the example once \<open>alice\<close> has updated her sentence about coffee in the
  Record Store while the index is out of service.\<close>

definition demo_updated :: Env where
  "demo_updated =
     vectorize_down demo_env
       \<lparr>DB := [demo_row ''A'' ''alice'' ''I like espresso'',
               demo_row ''B'' ''bob'' ''I like dark roast coffee'',
               demo_row ''C'' ''alice'' ''I like tea''],
        console := [console_log ''Memory A updated in D1'']\<rparr>"

section \<open>Facts about the helpers\<close>

lemmas demo_defs =
  demo_env_def demo_AI_def demo_vector_def demo_row_def dot_def vectorize_down_def
  database_down_def

lemma String_includes_here: "String_includes (pat @ ys) pat"
proof (cases "pat @ ys")
  case Nil
  then show ?thesis by simp
next
  case (Cons c cs)
  have "take (length pat) (pat @ ys) = pat" by simp
  with Cons show ?thesis by simp
qed

lemma String_includes_append: "String_includes (xs @ pat @ ys) pat"
proof (induction xs)
  case Nil
  then show ?case using String_includes_here by simp
next
  case (Cons x xs)
  then show ?case by simp
qed

lemma not_found_message:
  "String_includes (''Memory with ID '' @ memoryId @ '' not found for user '' @ userId
                     @ '' or content unchanged.'') ''not found''"
proof -
  have "''Memory with ID '' @ memoryId @ '' not found for user '' @ userId @ '' or content unchanged.''
        = (''Memory with ID '' @ memoryId @ '' '') @ ''not found''
            @ ('' for user '' @ userId @ '' or content unchanged.'')"
    by simp
  then show ?thesis by (simp only: String_includes_append)
qed

lemma trim_split:
  "dropWhile is_white_space s =
     trim s @ rev (takeWhile is_white_space (rev (dropWhile is_white_space s)))"
proof -
  let ?t = "dropWhile is_white_space s"
  have "rev (dropWhile is_white_space (rev ?t)) @ rev (takeWhile is_white_space (rev ?t))
        = rev (takeWhile is_white_space (rev ?t) @ dropWhile is_white_space (rev ?t))"
    by (simp only: rev_append)
  also have "\<dots> = ?t" by simp
  finally show ?thesis by (simp add: trim_def)
qed

lemma trim_decompose:
  "\<exists>l r. s = l @ trim s @ r \<and> (\<forall>c\<in>set l. is_white_space c) \<and> (\<forall>c\<in>set r. is_white_space c)"
proof -
  let ?t = "dropWhile is_white_space s"
  let ?l = "takeWhile is_white_space s"
  let ?r = "rev (takeWhile is_white_space (rev ?t))"
  have "s = ?l @ ?t" by simp
  with trim_split [of s] have "s = ?l @ trim s @ ?r" by simp
  moreover have "\<forall>c\<in>set ?l. is_white_space c"
    by (auto dest: set_takeWhileD)
  moreover have "\<forall>c\<in>set ?r. is_white_space c"
    by (auto dest: set_takeWhileD)
  ultimately show ?thesis by blast
qed

lemma trim_empty_iff: "trim s = [] \<longleftrightarrow> (\<forall>c\<in>set s. is_white_space c)"
proof
  assume "trim s = []"
  with trim_decompose [of s] show "\<forall>c\<in>set s. is_white_space c"
    by (metis Un_iff append_Nil set_append)
next
  assume a: "\<forall>c\<in>set s. is_white_space c"
  then have "dropWhile is_white_space s = []" by simp
  then show "trim s = []" by (simp add: trim_def del: dropWhile_eq_Nil_conv)
qed

lemma trim_ends:
  assumes "trim s \<noteq> []"
  shows "\<not> is_white_space (hd (trim s)) \<and> \<not> is_white_space (last (trim s))"
proof -
  let ?t = "dropWhile is_white_space s"
  from assms have t: "?t \<noteq> []" by (auto simp: trim_def dest: set_dropWhileD)
  then have "\<not> is_white_space (hd ?t)" by (rule hd_dropWhile)
  moreover from trim_split [of s] assms have "hd ?t = hd (trim s)"
    by (metis hd_append2)
  moreover have "\<not> is_white_space (last (trim s))"
  proof -
    from assms have d: "dropWhile is_white_space (rev ?t) \<noteq> []" by (simp add: trim_def)
    then have "\<not> is_white_space (hd (dropWhile is_white_space (rev ?t)))" by (rule hd_dropWhile)
    with d show ?thesis by (simp add: trim_def last_rev)
  qed
  ultimately show ?thesis by simp
qed

lemma demo_trim: "trim ''  I like espresso  '' = ''I like espresso''"
  by (simp add: trim_def is_white_space_def)

lemma String_of_error_examples:
  "String_of_error (Error ''AI unavailable'') = ''Error: AI unavailable''"
  "String_of_error (Error []) = ''Error''"
  "String_of_error (ErrorOfClass ''TypeError'' ''fetch failed'') = ''TypeError: fetch failed''"
  by (simp_all add: String_of_error_def)

lemma content_of_Some_not_falsy: "content_of body = Some v \<Longrightarrow> \<not> falsy body"
  by (cases body) auto

section \<open>Search\<close>

text \<open>Every memory \<open>searchMemories\<close> returns is built from one entry of the index that
  carries the namespace asked for and scores above the minimum.\<close>

lemma searchMemories_sound:
  assumes "searchMemories query userId env = Inr memories" and "m \<in> set memories"
  shows "\<exists>queryVector v.
           generateEmbeddings query env = Inr queryVector \<and>
           v \<in> set (VECTORIZE env) \<and> vec_namespace v = userId \<and>
           MINIMUM_SIMILARITY_SCORE < match_score (match_of env queryVector v) \<and>
           mem_id m = vec_id v \<and>
           mem_score m = match_score (match_of env queryVector v) \<and>
           mem_content m = content_of_match (match_of env queryVector v)"
proof -
  from assms(1) obtain queryVector where qv: "generateEmbeddings query env = Inr queryVector"
    by (auto simp: searchMemories_def split: sum.splits)
  from assms(1) qv have up: "VECTORIZE_failure env = None"
    by (auto simp: searchMemories_def VECTORIZE_query_def split: sum.splits option.splits)
  let ?ms = "take 10 (sort_key (\<lambda>m. - match_score m) (map (match_of env queryVector)
               (filter (\<lambda>v. vec_namespace v = userId) (VECTORIZE env))))"
  let ?f = "\<lambda>m. \<lparr>mem_content = content_of_match m,
                  mem_score = (if match_score m = 0 then 0 else match_score m),
                  mem_id = match_id m\<rparr>"
  from assms(1) qv up have
    "memories = [] \<or> memories = sort_key (\<lambda>a. - mem_score a)
        (map ?f (filter (\<lambda>m. match_score m > MINIMUM_SIMILARITY_SCORE) ?ms))"
    by (auto simp: searchMemories_def VECTORIZE_query_def Let_def split: if_splits)
  with assms(2) have "m \<in> set (map ?f (filter (\<lambda>m. match_score m > MINIMUM_SIMILARITY_SCORE) ?ms))"
    by auto
  then obtain mt where mt: "mt \<in> set ?ms" "match_score mt > MINIMUM_SIMILARITY_SCORE" "m = ?f mt"
    by auto
  from mt(1) have "mt \<in> set (map (match_of env queryVector)
               (filter (\<lambda>v. vec_namespace v = userId) (VECTORIZE env)))"
    by (auto dest: in_set_takeD)
  then obtain v where v: "v \<in> set (VECTORIZE env)" "vec_namespace v = userId"
      "mt = match_of env queryVector v"
    by auto
  from mt v qv show ?thesis
    by (auto simp: match_of_def)
qed

lemma demo_search_alice:
  "searchMemories ''coffee preference'' ''alice'' demo_env =
     Inr [\<lparr>mem_content = ''I like dark roast coffee'', mem_score = 1, mem_id = ''A''\<rparr>]"
  by (simp add: searchMemories_def generateEmbeddings_def VECTORIZE_query_def match_of_def
      content_of_match_def MINIMUM_SIMILARITY_SCORE_def demo_defs)

text \<open>The ids of the index stay pairwise different under every write the source makes.\<close>

lemma upsert_one_ids:
  "map vec_id (upsert_one idx v) =
     (if vec_id v \<in> set (map vec_id idx) then map vec_id idx else map vec_id idx @ [vec_id v])"
proof -
  have "map vec_id (map (\<lambda>e. if vec_id e = vec_id v then v else e) idx) = map vec_id idx"
    by (induction idx) auto
  then show ?thesis by (simp add: upsert_one_def)
qed

lemma upsert_one_distinct:
  "distinct (map vec_id idx) \<Longrightarrow> distinct (map vec_id (upsert_one idx v))"
  by (simp add: upsert_one_ids)

lemma storeMemory_distinct:
  assumes "distinct (map vec_id (VECTORIZE env))"
  shows "distinct (map vec_id (VECTORIZE (fst (storeMemory text userId env uuid))))"
  using assms
  by (auto simp: storeMemory_def VECTORIZE_upsert_def upsert_one_distinct Let_def
      split: sum.splits option.splits)

lemma updateMemoryVector_distinct:
  assumes "distinct (map vec_id (VECTORIZE env))"
  shows "distinct (map vec_id (VECTORIZE (fst (updateMemoryVector memoryId newContent userId env))))"
  using assms
  by (auto simp: updateMemoryVector_def VECTORIZE_upsert_def upsert_one_distinct console_write_def
      split: sum.splits option.splits)

lemma deleteVectorById_distinct:
  assumes "distinct (map vec_id (VECTORIZE env))"
  shows "distinct (map vec_id (VECTORIZE (fst (deleteVectorById memoryId userId env))))"
  using assms
  by (auto simp: deleteVectorById_def VECTORIZE_deleteByIds_def distinct_map_filter console_write_def
      split: sum.splits option.splits)

text \<open>
  Claim C1. For every query and namespace, \<open>searchMemories\<close> returns only entries written
  under the namespace asked for: each memory returned has the id of an entry of the index
  whose namespace is \<open>userId\<close>, and, the ids of the index being pairwise different, no
  entry of another namespace has that id, whatever the other namespaces contain.
\<close>

theorem searchMemories_namespace_isolation:
  assumes "searchMemories query userId env = Inr memories" and "m \<in> set memories"
  shows "(\<exists>v\<in>set (VECTORIZE env). vec_namespace v = userId \<and> vec_id v = mem_id m) \<and>
         (distinct (map vec_id (VECTORIZE env)) \<longrightarrow>
            (\<forall>v\<in>set (VECTORIZE env). vec_id v = mem_id m \<longrightarrow> vec_namespace v = userId))"
proof -
  from searchMemories_sound [OF assms] obtain v where
    v: "v \<in> set (VECTORIZE env)" "vec_namespace v = userId" "mem_id m = vec_id v"
    by blast
  have "distinct (map vec_id (VECTORIZE env)) \<Longrightarrow> w \<in> set (VECTORIZE env) \<Longrightarrow>
        vec_id w = mem_id m \<Longrightarrow> vec_namespace w = userId" for w
    using v by (metis distinct_map inj_onD)
  with v show ?thesis by auto
qed

theorem searchMemories_namespace_isolation_witness:
  "searchMemories ''coffee preference'' ''alice'' demo_env =
     Inr [\<lparr>mem_content = ''I like dark roast coffee'', mem_score = 1, mem_id = ''A''\<rparr>] \<and>
   distinct (map vec_id (VECTORIZE demo_env)) \<and>
   (\<exists>v\<in>set (VECTORIZE demo_env). vec_namespace v = ''bob'' \<and>
       vec_metadata v = Some (JObj [(''content'', JStr ''I like dark roast coffee'')])) \<and>
   list_all (\<lambda>v. vec_id v = ''A'' \<longrightarrow> vec_namespace v = ''alice'') (VECTORIZE demo_env)"
proof -
  let ?m = "\<lparr>mem_content = ''I like dark roast coffee'', mem_score = 1, mem_id = ''A''\<rparr>"
  have d: "distinct (map vec_id (VECTORIZE demo_env))" by (simp add: demo_defs)
  have b: "\<exists>v\<in>set (VECTORIZE demo_env). vec_namespace v = ''bob'' \<and>
       vec_metadata v = Some (JObj [(''content'', JStr ''I like dark roast coffee'')])"
    by (simp add: demo_defs)
  have "?m \<in> set [?m]" by simp
  from searchMemories_namespace_isolation [OF demo_search_alice this] d b demo_search_alice
  show ?thesis by (simp add: list_all_iff)
qed

text \<open>
  Claim C2. Every memory \<open>searchMemories\<close> returns has a score strictly greater than the
  minimum 0.5; a match that scores 0.5 or less is never returned.
\<close>

theorem searchMemories_above_threshold:
  assumes "searchMemories query userId env = Inr memories" and "m \<in> set memories"
  shows "0.5 < mem_score m"
  using searchMemories_sound [OF assms] by (auto simp: MINIMUM_SIMILARITY_SCORE_def)

theorem searchMemories_above_threshold_witness:
  "searchMemories ''coffee preference'' ''alice'' demo_env =
     Inr [\<lparr>mem_content = ''I like dark roast coffee'', mem_score = 1, mem_id = ''A''\<rparr>] \<and>
   (0.5 :: real) < mem_score \<lparr>mem_content = ''I like dark roast coffee'', mem_score = 1, mem_id = ''A''\<rparr>"
proof -
  let ?m = "\<lparr>mem_content = ''I like dark roast coffee'', mem_score = 1, mem_id = ''A''\<rparr>"
  have "?m \<in> set [?m]" by simp
  from searchMemories_above_threshold [OF demo_search_alice this] demo_search_alice
  show ?thesis by simp
qed

text \<open>In the example both entries of \<open>alice\<close> score exactly 0.5 against a text the model
  places between them, and neither is returned.\<close>

lemma demo_search_at_threshold:
  "map (\<lambda>v. match_score (match_of demo_env [1 / 2, 1 / 2] v))
     (filter (\<lambda>v. vec_namespace v = ''alice'') (VECTORIZE demo_env)) = [1 / 2, 1 / 2] \<and>
   searchMemories ''something else'' ''alice'' demo_env = Inr []"
  by (simp add: searchMemories_def generateEmbeddings_def VECTORIZE_query_def match_of_def
      content_of_match_def MINIMUM_SIMILARITY_SCORE_def demo_defs)

section \<open>Remember\<close>








text \<open>
  Claim C5. The specification asks that \<open>remember\<close> with empty content be rejected before
  any store is touched. The tool has no such check: for the empty text it asks for an
  embedding, writes the Vector Entry and the Memory Record, and answers \<open>Remembered: \<close>.
\<close>

theorem addToMCPMemory_empty_content_stored:
  "snd (addToMCPMemory [] ''alice'' ''D'' demo_env) = ToolText ''Remembered: '' \<and>
   DB (fst (addToMCPMemory [] ''alice'' ''D'' demo_env)) =
     DB demo_env @ [\<lparr>row_id = ''D'', row_userId = ''alice'', row_content = [],
                      row_created_at = ''2025-01-02 00:00:00''\<rparr>] \<and>
   VECTORIZE (fst (addToMCPMemory [] ''alice'' ''D'' demo_env)) =
     VECTORIZE demo_env @ [\<lparr>vec_id = ''D'', vec_values = [1 / 2, 1 / 2], vec_namespace = ''alice'',
                             vec_metadata = Some (JObj [(''content'', JStr [])])\<rparr>]"
  by (simp add: addToMCPMemory_def storeMemory_def storeMemoryInD1_def generateEmbeddings_def
      VECTORIZE_upsert_def upsert_one_def D1_run_insert_def console_write_def Let_def demo_defs)

section \<open>Update\<close>

text \<open>
  Claim C4. When the update statement of the Record Store runs and reports no row changed
  (or no \<open>meta\<close> at all), \<open>updateMemoryInD1\<close> throws an error whose message contains
  \<open>not found\<close>; the route answers with status 404, \<open>success: false\<close> and that message,
  never with \<open>success: true\<close>, and writes nothing to either store.
\<close>

theorem app_put_zero_changes_not_found:
  assumes body: "content_of body = Some (JStr s)" "trim s \<noteq> []"
      and run: "D1_run_update (trim s) memoryId userId env = (env1, Inr result)"
      and zero: "case meta result of None \<Rightarrow> True | Some m \<Rightarrow> changes m = 0"
  shows "\<exists>msg env2 env'.
           updateMemoryInD1 memoryId userId (trim s) env = (env2, Inl (Error msg)) \<and>
           String_includes msg ''not found'' \<and>
           app_put userId memoryId (Inr body) env =
             (env', \<lparr>res_status = 404,
                     res_body = JObj [(''success'', JBool False), (''error'', JStr msg)]\<rparr>) \<and>
           VECTORIZE env' = VECTORIZE env1 \<and> DB env' = DB env1"
proof -
  let ?msg = "''Memory with ID '' @ memoryId @ '' not found for user '' @ userId
                     @ '' or content unchanged.''"
  let ?env2 = "console_write (console_error ''Error updating memory in D1:'' (Error ?msg)) env1"
  have u: "updateMemoryInD1 memoryId userId (trim s) env = (?env2, Inl (Error ?msg))"
    using run zero by (simp add: updateMemoryInD1_def Let_def)
  have nf: "String_includes ?msg ''not found''" by (rule not_found_message)
  have ne: "?msg \<noteq> []" by simp
  have p: "app_put userId memoryId (Inr body) env =
        (console_write (console_error (''Error updating memory '' @ memoryId
                                @ '' for user '' @ userId @ '':'') (Error ?msg)) ?env2,
         c_json (success_false ?msg) 404)"
    using body content_of_Some_not_falsy [OF body(1)] u nf ne
    by (simp add: app_put_def Let_def del: String_includes.simps)
  show ?thesis
    apply (rule exI [of _ ?msg], rule exI [of _ ?env2])
    using u nf p
    by (simp add: console_write_def c_json_def success_false_def del: String_includes.simps)
qed

lemma demo_run_update_bob:
  "D1_run_update ''I like espresso'' ''A'' ''bob'' demo_env =
     (demo_env, Inr \<lparr>meta = Some \<lparr>changes = 0\<rparr>\<rparr>)"
  by (simp add: D1_run_update_def row_matches_def demo_defs)

theorem app_put_zero_changes_not_found_witness:
  "content_of (JObj [(''content'', JStr ''  I like espresso  '')]) = Some (JStr ''  I like espresso  '') \<and>
   trim ''  I like espresso  '' \<noteq> [] \<and>
   D1_run_update (trim ''  I like espresso  '') ''A'' ''bob'' demo_env =
     (demo_env, Inr \<lparr>meta = Some \<lparr>changes = 0\<rparr>\<rparr>) \<and>
   (\<exists>msg env'. String_includes msg ''not found'' \<and>
        app_put ''bob'' ''A'' (Inr (JObj [(''content'', JStr ''  I like espresso  '')])) demo_env
          = (env', \<lparr>res_status = 404,
                    res_body = JObj [(''success'', JBool False), (''error'', JStr msg)]\<rparr>) \<and>
        DB env' = DB demo_env)"
proof -
  have c: "content_of (JObj [(''content'', JStr ''  I like espresso  '')]) = Some (JStr ''  I like espresso  '')"
    by simp
  have t: "trim ''  I like espresso  '' \<noteq> []" by (simp add: demo_trim)
  have r: "D1_run_update (trim ''  I like espresso  '') ''A'' ''bob'' demo_env =
     (demo_env, Inr \<lparr>meta = Some \<lparr>changes = 0\<rparr>\<rparr>)"
    using demo_run_update_bob by (simp only: demo_trim)
  have z: "case meta \<lparr>meta = Some \<lparr>changes = 0\<rparr>\<rparr> of None \<Rightarrow> True | Some m \<Rightarrow> changes m = 0"
    by simp
  from app_put_zero_changes_not_found [OF c t r z] c t r
  show ?thesis by blast
qed

text \<open>A failure of the store itself, with a message that does not contain \<open>not found\<close>,
  is answered with status 500.\<close>

lemma app_put_store_failure:
  assumes "content_of body = Some (JStr s)" and "trim s \<noteq> []"
      and "DB_failure env = Some e"
      and "\<not> String_includes (if message e = [] then ''Failed to update memory'' else message e)
                               ''not found''"
  shows "res_status (snd (app_put userId memoryId (Inr body) env)) = 500"
  using assms content_of_Some_not_falsy [OF assms(1)]
  by (simp add: app_put_def updateMemoryInD1_def D1_run_update_def c_json_def Let_def
      del: String_includes.simps)

lemma updateMemoryVector_outcome:
  assumes "AI env2 = AI env" and "VECTORIZE_failure env2 = VECTORIZE_failure env"
  shows "snd (updateMemoryVector memoryId newContent userId env2)
         = snd (updateMemoryVector memoryId newContent userId env)"
  using assms
  by (simp add: updateMemoryVector_def generateEmbeddings_def VECTORIZE_upsert_def
      split: sum.splits list.splits option.splits)

lemma updateMemoryVector_failure:
  "updateMemoryVector memoryId newContent userId env = (env', Inl e) \<Longrightarrow> env' = env"
  by (auto simp: updateMemoryVector_def VECTORIZE_upsert_def split: sum.splits option.splits)

lemma updateMemoryInD1_success:
  assumes "updateMemoryInD1 memoryId userId newContent env = (env1, Inr u)"
  shows "DB env1 = map (\<lambda>r. if row_matches memoryId userId r
                              then r\<lparr>row_content := newContent\<rparr> else r) (DB env)"
    and "\<exists>r\<in>set (DB env). row_matches memoryId userId r"
    and "VECTORIZE env1 = VECTORIZE env" and "AI env1 = AI env"
    and "VECTORIZE_failure env1 = VECTORIZE_failure env"
    and "console env1 = console env @ [console_log (''Memory '' @ memoryId @ '' updated in D1'')]"
  using assms
  by (auto simp: updateMemoryInD1_def D1_run_update_def console_write_def Let_def filter_empty_conv
      split: option.splits if_splits)

text \<open>
  Claim C7. When the update of the Record Store succeeds and the vector upsert then fails
  (no embedding, or the index throws), the updated row stays in the Record Store: the
  route does not undo the update. The failure is written to the console with
  \<open>console.error\<close>, the index is unchanged, and the route answers \<open>success: true\<close>.
\<close>

theorem app_put_vector_failure_keeps_record:
  assumes body: "content_of body = Some (JStr s)" "trim s \<noteq> []"
      and d1: "updateMemoryInD1 memoryId userId (trim s) env = (env1, Inr ())"
      and vec: "snd (updateMemoryVector memoryId (trim s) userId env1) = Inl vectorError"
  shows "\<exists>env'. app_put userId memoryId (Inr body) env = (env', c_json success_true 200) \<and>
           DB env' = DB env1 \<and>
           DB env' = map (\<lambda>r. if row_matches memoryId userId r
                               then r\<lparr>row_content := trim s\<rparr> else r) (DB env) \<and>
           (\<exists>r\<in>set (DB env'). row_matches memoryId userId r \<and> row_content r = trim s) \<and>
           VECTORIZE env' = VECTORIZE env \<and>
           console_error (''Failed to update vector '' @ memoryId @ '' for user '' @ userId
                            @ '' in Vectorize:'') vectorError \<in> set (console env')"
proof -
  let ?env2 = "console_write (console_log (''Updated memory '' @ memoryId
                                @ '' for user '' @ userId @ '' in D1.'')) env1"
  let ?env3 = "console_write (console_error (''Failed to update vector '' @ memoryId
                  @ '' for user '' @ userId @ '' in Vectorize:'') vectorError) ?env2"
  note u = updateMemoryInD1_success [OF d1]
  have "AI ?env2 = AI env1" "VECTORIZE_failure ?env2 = VECTORIZE_failure env1"
    by (simp_all add: console_write_def)
  from updateMemoryVector_outcome [OF this] vec
  have "snd (updateMemoryVector memoryId (trim s) userId ?env2) = Inl vectorError" by simp
  then obtain e2 where "updateMemoryVector memoryId (trim s) userId ?env2 = (e2, Inl vectorError)"
    by (cases "updateMemoryVector memoryId (trim s) userId ?env2") auto
  with updateMemoryVector_failure [OF this]
  have v: "updateMemoryVector memoryId (trim s) userId ?env2 = (?env2, Inl vectorError)" by simp
  have p: "app_put userId memoryId (Inr body) env = (?env3, c_json success_true 200)"
    using body content_of_Some_not_falsy [OF body(1)] d1 v
    by (simp add: app_put_def Let_def)
  have db: "DB ?env3 = DB env1" and vz: "VECTORIZE ?env3 = VECTORIZE env"
    using u by (simp_all add: console_write_def)
  from u(2) obtain r where r: "r \<in> set (DB env)" "row_matches memoryId userId r" by blast
  then have "r\<lparr>row_content := trim s\<rparr> \<in> set (DB env1)"
    unfolding u(1) by force
  moreover from r have "row_matches memoryId userId (r\<lparr>row_content := trim s\<rparr>)"
    by (simp add: row_matches_def)
  ultimately have ex: "\<exists>r\<in>set (DB ?env3). row_matches memoryId userId r \<and> row_content r = trim s"
    using db by force
  have lg: "console_error (''Failed to update vector '' @ memoryId @ '' for user '' @ userId
                            @ '' in Vectorize:'') vectorError \<in> set (console ?env3)"
    by (simp add: console_write_def)
  show ?thesis
    apply (rule exI [of _ ?env3])
    using p db vz ex lg u(1) by simp
qed

lemma demo_update_D1:
  "updateMemoryInD1 ''A'' ''alice'' ''I like espresso'' (vectorize_down demo_env) =
     (demo_updated, Inr ())"
  by (simp add: updateMemoryInD1_def D1_run_update_def row_matches_def console_write_def
      demo_updated_def demo_defs)

lemma demo_update_vector_fails:
  "snd (updateMemoryVector ''A'' ''I like espresso'' ''alice'' demo_updated)
     = Inl (Error ''Vectorize is unavailable'')"
  by (simp add: updateMemoryVector_def generateEmbeddings_def VECTORIZE_upsert_def
      demo_updated_def demo_defs)

theorem app_put_vector_failure_keeps_record_witness:
  "content_of (JObj [(''content'', JStr ''  I like espresso  '')]) = Some (JStr ''  I like espresso  '') \<and>
   trim ''  I like espresso  '' \<noteq> [] \<and>
   updateMemoryInD1 ''A'' ''alice'' (trim ''  I like espresso  '') (vectorize_down demo_env) =
     (demo_updated, Inr ()) \<and>
   snd (updateMemoryVector ''A'' (trim ''  I like espresso  '') ''alice'' demo_updated)
     = Inl (Error ''Vectorize is unavailable'') \<and>
   (\<exists>env'. app_put ''alice'' ''A'' (Inr (JObj [(''content'', JStr ''  I like espresso  '')]))
              (vectorize_down demo_env) = (env', c_json success_true 200) \<and>
           DB env' = DB demo_updated \<and>
           (\<exists>r\<in>set (DB env'). row_matches ''A'' ''alice'' r \<and>
               row_content r = trim ''  I like espresso  '') \<and>
           VECTORIZE env' = VECTORIZE (vectorize_down demo_env) \<and>
           console_error (''Failed to update vector '' @ ''A'' @ '' for user '' @ ''alice''
                            @ '' in Vectorize:'') (Error ''Vectorize is unavailable'')
             \<in> set (console env'))"
proof -
  have c: "content_of (JObj [(''content'', JStr ''  I like espresso  '')]) = Some (JStr ''  I like espresso  '')"
    by simp
  have t: "trim ''  I like espresso  '' \<noteq> []" by (simp add: demo_trim)
  have d: "updateMemoryInD1 ''A'' ''alice'' (trim ''  I like espresso  '') (vectorize_down demo_env) =
     (demo_updated, Inr ())"
    using demo_update_D1 by (simp only: demo_trim)
  have v: "snd (updateMemoryVector ''A'' (trim ''  I like espresso  '') ''alice'' demo_updated)
     = Inl (Error ''Vectorize is unavailable'')"
    using demo_update_vector_fails by (simp only: demo_trim)
  from app_put_vector_failure_keeps_record [OF c t d v] c t d v
  show ?thesis by blast
qed

text \<open>
  Claim C8. An update whose body has the empty string as content is rejected with status
  400 (\<open>Invalid or missing content in request body\<close>) and the environment is left as it
  was: no write to the Record Store, no upsert into the index.
\<close>

theorem app_put_empty_content_rejected:
  assumes "content_of body = Some (JStr [])"
  shows "app_put userId memoryId (Inr body) env =
           (env, c_json (success_false ''Invalid or missing content in request body'') 400)"
  using assms by (simp add: app_put_def trim_def)

theorem app_put_empty_content_rejected_witness:
  "content_of (JObj [(''content'', JStr [])]) = Some (JStr []) \<and>
   demo_row ''A'' ''alice'' ''I like dark roast coffee'' \<in> set (DB demo_env) \<and>
   app_put ''alice'' ''A'' (Inr (JObj [(''content'', JStr [])])) demo_env =
     (demo_env, c_json (success_false ''Invalid or missing content in request body'') 400)"
proof -
  have c: "content_of (JObj [(''content'', JStr [])]) = Some (JStr [])" by simp
  have r: "demo_row ''A'' ''alice'' ''I like dark roast coffee'' \<in> set (DB demo_env)"
    by (simp add: demo_env_def)
  from app_put_empty_content_rejected [OF c, of "''alice''" "''A''" demo_env] c r
  show ?thesis by simp
qed

lemma upsert_one_elements:
  "w \<in> set (upsert_one idx v) \<Longrightarrow> w \<in> set idx \<or> w = v"
  by (auto simp: upsert_one_def split: if_splits)

lemma updateMemoryVector_frame:
  assumes "updateMemoryVector memoryId newContent userId env = (env', r)"
  shows "DB env' = DB env"
    and "\<forall>v\<in>set (VECTORIZE env'). v \<in> set (VECTORIZE env) \<or>
            (vec_id v = memoryId \<and> vec_namespace v = userId \<and>
             vec_metadata v = Some (JObj [(''content'', JStr newContent)]))"
  using assms
  by (auto simp: updateMemoryVector_def VECTORIZE_upsert_def console_write_def
      split: sum.splits option.splits dest!: upsert_one_elements)

text \<open>
  Claim C10. For a body whose content is a string \<open>s\<close>: when \<open>s\<close> is whitespace only, the
  update is rejected exactly as for the empty string; when the update is answered with
  status 200, the row of the Record Store holds \<open>trim s\<close>, and so does any entry the
  route wrote to the index. \<open>trim s\<close> is \<open>s\<close> without the whitespace at its two ends.
\<close>

theorem app_put_stores_trimmed_content:
  assumes "content_of body = Some (JStr s)"
  shows "((\<forall>c\<in>set s. is_white_space c) \<longrightarrow>
            app_put userId memoryId (Inr body) env =
              (env, c_json (success_false ''Invalid or missing content in request body'') 400) \<and>
            app_put userId memoryId (Inr body) env =
              app_put userId memoryId (Inr (JObj [(''content'', JStr [])])) env) \<and>
         (res_status (snd (app_put userId memoryId (Inr body) env)) = 200 \<longrightarrow>
            DB (fst (app_put userId memoryId (Inr body) env)) =
              map (\<lambda>r. if row_matches memoryId userId r
                        then r\<lparr>row_content := trim s\<rparr> else r) (DB env) \<and>
            (\<exists>r\<in>set (DB (fst (app_put userId memoryId (Inr body) env))).
                row_matches memoryId userId r \<and> row_content r = trim s) \<and>
            (\<forall>v\<in>set (VECTORIZE (fst (app_put userId memoryId (Inr body) env))).
                v \<in> set (VECTORIZE env) \<or>
                vec_metadata v = Some (JObj [(''content'', JStr (trim s))]))) \<and>
         (\<exists>l r. s = l @ trim s @ r \<and> (\<forall>c\<in>set l. is_white_space c)
                                       \<and> (\<forall>c\<in>set r. is_white_space c)) \<and>
         (trim s \<noteq> [] \<longrightarrow> \<not> is_white_space (hd (trim s)) \<and> \<not> is_white_space (last (trim s)))"
proof -
  let ?reject = "c_json (success_false ''Invalid or missing content in request body'') 400"
  have white: "app_put userId memoryId (Inr body) env = (env, ?reject) \<and>
               app_put userId memoryId (Inr body) env =
                 app_put userId memoryId (Inr (JObj [(''content'', JStr [])])) env"
    if "\<forall>c\<in>set s. is_white_space c"
  proof -
    from that have "trim s = []" by (simp add: trim_empty_iff)
    with assms have "app_put userId memoryId (Inr body) env = (env, ?reject)"
      by (simp add: app_put_def)
    moreover have "app_put userId memoryId (Inr (JObj [(''content'', JStr [])])) env = (env, ?reject)"
      by (simp add: app_put_def trim_def)
    ultimately show ?thesis by simp
  qed
  have stored:
    "DB (fst (app_put userId memoryId (Inr body) env)) =
        map (\<lambda>r. if row_matches memoryId userId r then r\<lparr>row_content := trim s\<rparr> else r) (DB env) \<and>
     (\<exists>r\<in>set (DB (fst (app_put userId memoryId (Inr body) env))).
         row_matches memoryId userId r \<and> row_content r = trim s) \<and>
     (\<forall>v\<in>set (VECTORIZE (fst (app_put userId memoryId (Inr body) env))).
         v \<in> set (VECTORIZE env) \<or> vec_metadata v = Some (JObj [(''content'', JStr (trim s))]))"
    if ok: "res_status (snd (app_put userId memoryId (Inr body) env)) = 200"
  proof -
    from ok assms have t: "trim s \<noteq> []"
      by (auto simp: app_put_def c_json_def)
    obtain env1 r1 where d1: "updateMemoryInD1 memoryId userId (trim s) env = (env1, r1)"
      by (cases "updateMemoryInD1 memoryId userId (trim s) env")
    from ok assms t d1 content_of_Some_not_falsy [OF assms] have r1: "r1 = Inr ()"
      by (cases r1) (auto simp: app_put_def c_json_def Let_def split: if_splits)
    note u = updateMemoryInD1_success [OF d1 [unfolded r1]]
    let ?env2 = "console_write (console_log (''Updated memory '' @ memoryId
                                @ '' for user '' @ userId @ '' in D1.'')) env1"
    obtain env' r2 where v: "updateMemoryVector memoryId (trim s) userId ?env2 = (env', r2)"
      by (cases "updateMemoryVector memoryId (trim s) userId ?env2")
    note f = updateMemoryVector_frame [OF v]
    have db: "DB (fst (app_put userId memoryId (Inr body) env)) = DB env1"
      using assms t d1 r1 v f(1) content_of_Some_not_falsy [OF assms]
      by (cases r2) (simp_all add: app_put_def Let_def console_write_def)
    have vz: "VECTORIZE (fst (app_put userId memoryId (Inr body) env)) = VECTORIZE env'"
      using assms t d1 r1 v content_of_Some_not_falsy [OF assms]
      by (cases r2) (simp_all add: app_put_def Let_def console_write_def)
    have vz2: "VECTORIZE ?env2 = VECTORIZE env"
      using u(3) by (simp add: console_write_def)
    from u(2) obtain r where r: "r \<in> set (DB env)" "row_matches memoryId userId r" by blast
    then have "r\<lparr>row_content := trim s\<rparr> \<in> set (DB env1)"
      unfolding u(1) by force
    moreover from r have "row_matches memoryId userId (r\<lparr>row_content := trim s\<rparr>)"
      by (simp add: row_matches_def)
    ultimately have ex: "\<exists>r\<in>set (DB env1). row_matches memoryId userId r \<and> row_content r = trim s"
      by force
    show ?thesis
      unfolding db vz using u(1) ex f(2) vz2 by auto
  qed
  from white stored trim_decompose [of s] trim_ends [of s] show ?thesis
    by blast
qed

lemma demo_put_ok:
  "res_status (snd (app_put ''alice'' ''A'' (Inr (JObj [(''content'', JStr ''  I like espresso  '')])) demo_env)) = 200"
  by (simp add: app_put_def updateMemoryInD1_def updateMemoryVector_def generateEmbeddings_def
      VECTORIZE_upsert_def upsert_one_def D1_run_update_def console_write_def row_matches_def
      trim_def is_white_space_def c_json_def Let_def demo_defs)

theorem app_put_stores_trimmed_content_witness:
  "content_of (JObj [(''content'', JStr [CHR 0x20, CHR 0x09, CHR 0x0A])])
      = Some (JStr [CHR 0x20, CHR 0x09, CHR 0x0A]) \<and>
   list_all is_white_space [CHR 0x20, CHR 0x09, CHR 0x0A] \<and>
   app_put ''alice'' ''A'' (Inr (JObj [(''content'', JStr [CHR 0x20, CHR 0x09, CHR 0x0A])])) demo_env =
     (demo_env, c_json (success_false ''Invalid or missing content in request body'') 400) \<and>
   content_of (JObj [(''content'', JStr ''  I like espresso  '')]) = Some (JStr ''  I like espresso  '') \<and>
   res_status (snd (app_put ''alice'' ''A''
      (Inr (JObj [(''content'', JStr ''  I like espresso  '')])) demo_env)) = 200 \<and>
   trim ''  I like espresso  '' = ''I like espresso'' \<and>
   trim ''  I like espresso  '' \<noteq> [] \<and>
   (\<exists>r\<in>set (DB (fst (app_put ''alice'' ''A''
        (Inr (JObj [(''content'', JStr ''  I like espresso  '')])) demo_env))).
      row_matches ''A'' ''alice'' r \<and> row_content r = trim ''  I like espresso  '') \<and>
   \<not> is_white_space (hd (trim ''  I like espresso  ''))"
proof -
  have c1: "content_of (JObj [(''content'', JStr [CHR 0x20, CHR 0x09, CHR 0x0A])])
      = Some (JStr [CHR 0x20, CHR 0x09, CHR 0x0A])" by simp
  have w: "\<forall>c\<in>set [CHR 0x20, CHR 0x09, CHR 0x0A]. is_white_space c"
    by (simp add: is_white_space_def)
  have c2: "content_of (JObj [(''content'', JStr ''  I like espresso  '')]) = Some (JStr ''  I like espresso  '')"
    by simp
  have t: "trim ''  I like espresso  '' \<noteq> []" by (simp add: demo_trim)
  note blank = app_put_stores_trimmed_content [OF c1, of "''alice''" "''A''" demo_env]
  note padded = app_put_stores_trimmed_content [OF c2, of "''alice''" "''A''" demo_env]
  from blank w have a:
    "app_put ''alice'' ''A'' (Inr (JObj [(''content'', JStr [CHR 0x20, CHR 0x09, CHR 0x0A])])) demo_env =
     (demo_env, c_json (success_false ''Invalid or missing content in request body'') 400)"
    by blast
  from padded demo_put_ok have b:
    "\<exists>r\<in>set (DB (fst (app_put ''alice'' ''A''
        (Inr (JObj [(''content'', JStr ''  I like espresso  '')])) demo_env))).
      row_matches ''A'' ''alice'' r \<and> row_content r = trim ''  I like espresso  ''"
    by blast
  from padded t have h: "\<not> is_white_space (hd (trim ''  I like espresso  ''))"
    by blast
  from w have w': "list_all is_white_space [CHR 0x20, CHR 0x09, CHR 0x0A]"
    by (simp only: list_all_iff)
  from c1 w' a c2 demo_put_ok demo_trim t b h show ?thesis
    by blast
qed

section \<open>Forget\<close>

text \<open>
  Claim C6. When the deletion from the Record Store succeeds, the route answers
  \<open>success: true\<close> with status 200, whether the deletion from the index then succeeds or
  throws.
\<close>

theorem app_delete_succeeds_when_record_deleted:
  assumes "deleteMemoryFromD1 memoryId userId env = (env1, Inr ())"
  shows "snd (app_delete userId memoryId env) = c_json success_true 200"
  using assms by (simp add: app_delete_def Let_def split: prod.splits sum.splits)

lemma demo_delete_D1:
  "deleteMemoryFromD1 ''A'' ''alice'' (vectorize_down demo_env) =
     (vectorize_down demo_env
        \<lparr>DB := [demo_row ''B'' ''bob'' ''I like dark roast coffee'', demo_row ''C'' ''alice'' ''I like tea''],
         console := [console_log ''Memory A deleted from D1'']\<rparr>, Inr ())"
  by (simp add: deleteMemoryFromD1_def D1_run_delete_def row_matches_def console_write_def demo_defs)

lemma demo_delete_vector_fails:
  "snd (deleteVectorById ''A'' ''alice'' (vectorize_down demo_env)) = Inl (Error ''Vectorize is unavailable'')"
  by (simp add: deleteVectorById_def VECTORIZE_deleteByIds_def demo_defs)

theorem app_delete_succeeds_when_record_deleted_witness:
  "snd (deleteVectorById ''A'' ''alice'' (vectorize_down demo_env)) = Inl (Error ''Vectorize is unavailable'') \<and>
   snd (app_delete ''alice'' ''A'' (vectorize_down demo_env)) = c_json success_true 200"
  using app_delete_succeeds_when_record_deleted [OF demo_delete_D1] demo_delete_vector_fails
  by simp

lemma deleteVectorById_frame:
  "deleteVectorById memoryId userId env = (env', r) \<Longrightarrow>
     DB env' = DB env \<and> DB_failure env' = DB_failure env"
  by (auto simp: deleteVectorById_def VECTORIZE_deleteByIds_def console_write_def
      split: option.splits)

lemma deleteMemoryFromD1_in_service:
  assumes "DB_failure env = None"
  shows "\<exists>env1. deleteMemoryFromD1 memoryId userId env = (env1, Inr ()) \<and>
           DB env1 = filter (\<lambda>r. \<not> row_matches memoryId userId r) (DB env) \<and>
           DB_failure env1 = None"
  using assms by (simp add: deleteMemoryFromD1_def D1_run_delete_def console_write_def)

lemma app_delete_in_service:
  assumes "DB_failure env = None"
  shows "snd (app_delete userId memoryId env) = c_json success_true 200"
    and "DB_failure (fst (app_delete userId memoryId env)) = None"
    and "DB (fst (app_delete userId memoryId env))
           = filter (\<lambda>r. \<not> row_matches memoryId userId r) (DB env)"
proof -
  from deleteMemoryFromD1_in_service [OF assms] obtain env1 where
    d: "deleteMemoryFromD1 memoryId userId env = (env1, Inr ())"
       "DB env1 = filter (\<lambda>r. \<not> row_matches memoryId userId r) (DB env)"
       "DB_failure env1 = None"
    by blast
  let ?env2 = "console_write (console_log (''Deleted memory '' @ memoryId @ '' for user ''
                                        @ userId @ '' from D1.'')) env1"
  obtain env' r where v: "deleteVectorById memoryId userId ?env2 = (env', r)"
    by (cases "deleteVectorById memoryId userId ?env2")
  from deleteVectorById_frame [OF v] d
  have f: "DB env' = filter (\<lambda>r. \<not> row_matches memoryId userId r) (DB env)" "DB_failure env' = None"
    by (simp_all add: console_write_def)
  show "snd (app_delete userId memoryId env) = c_json success_true 200"
    using d(1) by (simp add: app_delete_def Let_def split: prod.splits sum.splits)
  show "DB_failure (fst (app_delete userId memoryId env)) = None"
    using d(1) v f by (cases r) (simp_all add: app_delete_def Let_def console_write_def)
  show "DB (fst (app_delete userId memoryId env))
           = filter (\<lambda>r. \<not> row_matches memoryId userId r) (DB env)"
    using d(1) v f by (cases r) (simp_all add: app_delete_def Let_def console_write_def)
qed

text \<open>
  Claim C9. With the Record Store in service, the route answers \<open>success: true\<close> whether or
  not a row exists for the id and user: \<open>deleteMemoryFromD1\<close> does not look at the number
  of rows deleted. A second call for the same id succeeds as well. When no row exists,
  the store reports zero changes and the table is unchanged.
\<close>

theorem app_delete_absent_record_succeeds:
  assumes "DB_failure env = None"
  shows "snd (app_delete userId memoryId env) = c_json success_true 200 \<and>
         snd (app_delete userId memoryId (fst (app_delete userId memoryId env)))
           = c_json success_true 200 \<and>
         ((\<forall>r\<in>set (DB env). \<not> row_matches memoryId userId r) \<longrightarrow>
            snd (D1_run_delete memoryId userId env) = Inr \<lparr>meta = Some \<lparr>changes = 0\<rparr>\<rparr> \<and>
            DB (fst (app_delete userId memoryId env)) = DB env)"
proof (intro conjI impI)
  show "snd (app_delete userId memoryId env) = c_json success_true 200"
    by (rule app_delete_in_service(1) [OF assms])
  show "snd (app_delete userId memoryId (fst (app_delete userId memoryId env)))
           = c_json success_true 200"
    by (rule app_delete_in_service(1) [OF app_delete_in_service(2) [OF assms]])
next
  assume a: "\<forall>r\<in>set (DB env). \<not> row_matches memoryId userId r"
  then have "filter (row_matches memoryId userId) (DB env) = []"
    by (simp add: filter_empty_conv)
  then show "snd (D1_run_delete memoryId userId env) = Inr \<lparr>meta = Some \<lparr>changes = 0\<rparr>\<rparr>"
    using assms by (simp add: D1_run_delete_def)
next
  assume a: "\<forall>r\<in>set (DB env). \<not> row_matches memoryId userId r"
  then have "filter (\<lambda>r. \<not> row_matches memoryId userId r) (DB env) = DB env"
    by (simp add: filter_id_conv)
  then show "DB (fst (app_delete userId memoryId env)) = DB env"
    using app_delete_in_service(3) [OF assms] by simp
qed

theorem app_delete_absent_record_succeeds_witness:
  "DB_failure demo_env = None \<and>
   list_all (\<lambda>r. \<not> row_matches ''Z'' ''alice'' r) (DB demo_env) \<and>
   snd (app_delete ''alice'' ''Z'' demo_env) = c_json success_true 200 \<and>
   snd (app_delete ''alice'' ''Z'' (fst (app_delete ''alice'' ''Z'' demo_env)))
     = c_json success_true 200 \<and>
   DB (fst (app_delete ''alice'' ''Z'' demo_env)) = DB demo_env"
proof -
  have s: "DB_failure demo_env = None" by (simp add: demo_env_def)
  have a: "\<forall>r\<in>set (DB demo_env). \<not> row_matches ''Z'' ''alice'' r"
    by (simp add: demo_env_def demo_row_def row_matches_def)
  from app_delete_absent_record_succeeds [OF s, of "''alice''" "''Z''"] s a
  show ?thesis by (simp add: list_all_iff)
qed

end
